theory Spec2Isabelle
  imports Complex_Main
begin

section \<open>TrackerParameterFinder: the offline parameter finder of the video-inertial tracker\<close>

text \<open>
  A shallow embedding of \<^verbatim>\<open>plugins/unifiedvideoinertialtracker/TrackerParameterFinder.cpp\<close>.

  Conventions.
  \<^item> A C++ \<^verbatim>\<open>double\<close> that the code only copies is a value of a type variable.
  \<^item> The trust-region radii, which the code compares with each other, are values of the
    type \<open>double\<close> below, with the comparison of IEEE 754: a NaN is double_gt than nothing
    and nothing is double_gt than a NaN.
  \<^item> The time step of the pose filter, which the code compares with zero, is a
    \<^typ>\<open>real\<close>: the comparison \<^verbatim>\<open>dt <= 0\<close> agrees with that of the reals on every
    double other than a NaN, and no arithmetic on the step is modelled.
  \<^item> A member that \<^verbatim>\<open>new TimestampedMeasurements\<close> leaves uninitialised holds
    \<^term>\<open>None\<close> until the code stores into it.
  \<^item> Functions and types of headers that are not part of the translated file
    (\<^verbatim>\<open>newuoa\<close>, the tracking-system factory, the one-euro filters, the RANSAC
    routine, the field parsers) are parameters of the definitions that call them.
\<close>

subsection \<open>The optimizer wrapper\<close>

text \<open>
  The values of a \<^verbatim>\<open>double\<close>, as far as its comparisons go: a NaN, the two infinities
  and the finite values (a finite double is the real number it stands for; the two zeros
  compare equal). \<open>double_gt a b\<close> is the C++ expression \<^verbatim>\<open>a > b\<close>.
\<close>

datatype double = NaN | MInf | Finite real | PInf

fun double_gt :: "double \<Rightarrow> double \<Rightarrow> bool" where
  "double_gt NaN b = False"
| "double_gt a NaN = False"
| "double_gt MInf b = False"
| "double_gt a MInf = True"
| "double_gt PInf PInf = False"
| "double_gt PInf (Finite s) = True"
| "double_gt (Finite r) PInf = False"
| "double_gt (Finite r) (Finite s) = (s < r)"

text \<open>
  The size of the working space, computed in \<^verbatim>\<open>long\<close>. \<open>LONG_MAX\<close> is the largest
  \<^verbatim>\<open>long\<close> of the platform, \<open>- LONG_MAX - 1\<close> the smallest. The result is \<^term>\<open>None\<close>
  when the conversion of \<^verbatim>\<open>x.size()\<close> or one of the operations leaves that range (signed
  overflow, for which C++ defines no result). The division of C++ truncates towards zero.
\<close>

definition inLong :: "int \<Rightarrow> int \<Rightarrow> bool" where
  "inLong LONG_MAX v = (- LONG_MAX - 1 \<le> v \<and> v \<le> LONG_MAX)"

definition workingSpaceNeeded :: "int \<Rightarrow> int \<Rightarrow> int \<Rightarrow> int option" where
  "workingSpaceNeeded LONG_MAX npt n =
     (let a = npt + 13;
          b = npt + n;
          c = a * b;
          d = 3 * n;
          e = n + 3;
          g = d * e;
          h = (if 0 \<le> g then g div 2 else - ((- g) div 2));
          r = c + h
      in if inLong LONG_MAX n \<and> inLong LONG_MAX a \<and> inLong LONG_MAX b \<and> inLong LONG_MAX c
            \<and> inLong LONG_MAX d \<and> inLong LONG_MAX e \<and> inLong LONG_MAX g \<and> inLong LONG_MAX r
         then Some r else None)"

text \<open>How a call of the wrapper ends without a call of \<^verbatim>\<open>newuoa\<close>.\<close>

datatype wrapperError = SignedOverflow | NoWorkingSpace

text \<open>
  \<^verbatim>\<open>ei_newuoa(npt, x, rho, maxfun, f)\<close>. The routine \<^verbatim>\<open>newuoa\<close> is the parameter
  \<open>newuoa\<close>; it receives the objective, the dimension, the number of interpolation
  points, the start vector, the two radii, the evaluation limit and the size of the working
  space, and returns the final objective value together with the vector it leaves in
  \<^verbatim>\<open>x\<close>. The vector is a list, \<^verbatim>\<open>x.size()\<close> its length. \<open>allocates ws\<close> tells whether
  the \<^verbatim>\<open>Eigen::VectorXd\<close> of \<open>ws\<close> coefficients can be constructed (the size is not
  negative and the memory is there).
\<close>

definition ei_newuoa ::
  "int \<Rightarrow> (int \<Rightarrow> bool)
   \<Rightarrow> (('n \<Rightarrow> 'a list \<Rightarrow> 'r) \<Rightarrow> int \<Rightarrow> int \<Rightarrow> 'a list \<Rightarrow> double \<Rightarrow> double \<Rightarrow> int \<Rightarrow> int \<Rightarrow> 'v \<times> 'a list)
   \<Rightarrow> int \<Rightarrow> 'a list \<Rightarrow> double \<times> double \<Rightarrow> int \<Rightarrow> ('n \<Rightarrow> 'a list \<Rightarrow> 'r)
   \<Rightarrow> wrapperError + 'v \<times> 'a list" where
  "ei_newuoa LONG_MAX allocates newuoa npt x rho maxfun f =
     (let (rhoBeg, rhoEnd) = rho;
          (rhoBeg, rhoEnd) = (if double_gt rhoEnd rhoBeg then (rhoEnd, rhoBeg) else (rhoBeg, rhoEnd));
          n = int (length x)
      in case workingSpaceNeeded LONG_MAX npt n of
           None \<Rightarrow> Inl SignedOverflow
         | Some ws \<Rightarrow>
             if allocates ws then Inr (newuoa f n npt x rhoBeg rhoEnd maxfun ws)
             else Inl NoWorkingSpace)"





subsection \<open>Mapping a parameter vector to a configuration\<close>

text \<open>
  \<^verbatim>\<open>ConfigParams\<close> is declared in a header outside the translated file; the record has
  the three members that \<^verbatim>\<open>updateConfigFromVec\<close> stores into, and the record's
  extension stands for the others. The array \<^verbatim>\<open>processNoiseAutocorrelation\<close> is a
  list; a store is \<open>xs[i := v]\<close>. A parameter vector (\<^verbatim>\<open>Eigen::Vector4d\<close>) is a list
  of four values, read with \<open>!\<close> at the indices 0 to 3.
\<close>

record 'a ConfigParams =
  processNoiseAutocorrelation :: "'a list"
  beaconProcessNoise :: 'a
  measurementVarianceScaleFactor :: 'a

text \<open>
  The chained assignment \<^verbatim>\<open>a[0] = a[1] = a[2] = v\<close> stores from right to left: first
  into slot 2, then the value of slot 2 into slot 1, then the value of slot 1 into slot 0.
\<close>

definition updateConfigFromVec :: "('a, 'm) ConfigParams_scheme \<Rightarrow> 'a list \<Rightarrow> ('a, 'm) ConfigParams_scheme" where
  "updateConfigFromVec params paramVec =
     (let a = processNoiseAutocorrelation params;
          a = a[2 := paramVec ! 0];
          a = a[1 := a ! 2];
          a = a[0 := a ! 1];
          a = a[5 := paramVec ! 1];
          a = a[4 := a ! 5];
          a = a[3 := a ! 4]
      in params\<lparr>processNoiseAutocorrelation := a,
                beaconProcessNoise := paramVec ! 2,
                measurementVarianceScaleFactor := paramVec ! 3\<rparr>)"

subsection \<open>Measurement rows\<close>

text \<open>
  \<^verbatim>\<open>TimestampedMeasurements\<close>. The members \<^verbatim>\<open>tv\<close>, \<^verbatim>\<open>xlate\<close> and \<^verbatim>\<open>rot\<close> have no
  initialiser: every component is \<^term>\<open>None\<close> in a new row and \<open>Some v\<close> once the
  code has stored \<open>v\<close>. The types of the seconds, the microseconds, the doubles and the
  floats are type variables; the code only moves these values.
\<close>

record ('s, 'u) TimeValue =
  seconds :: "'s option"
  microseconds :: "'u option"

text \<open>The coefficients \<^verbatim>\<open>w()\<close>, \<^verbatim>\<open>x()\<close>, \<^verbatim>\<open>y()\<close> and \<^verbatim>\<open>z()\<close> of a quaternion.\<close>

record 'd Quaterniond =
  qw :: "'d option"
  qx :: "'d option"
  qy :: "'d option"
  qz :: "'d option"

text \<open>
  \<^verbatim>\<open>LedMeasurement\<close> is declared in a header outside the translated file: a measurement
  is the tuple of the arguments its constructor is called with (the two image coordinates,
  the size and the image size).
\<close>

datatype 'f LedMeasurement = LedMeasurement 'f 'f 'f "nat \<times> nat"

definition IMAGE_SIZE :: "nat \<times> nat" where
  "IMAGE_SIZE = (640, 480)"

record ('s, 'u, 'd, 'f) TimestampedMeasurements =
  tv :: "('s, 'u) TimeValue"
  xlate :: "'d option list"
  rot :: "'d Quaterniond"
  measurements :: "'f LedMeasurement list"
  ok :: bool

definition TimestampedMeasurements_new :: "('s, 'u, 'd, 'f) TimestampedMeasurements" where
  "TimestampedMeasurements_new =
     \<lparr>tv = \<lparr>seconds = None, microseconds = None\<rparr>,
      xlate = [None, None, None],
      rot = \<lparr>qw = None, qx = None, qy = None, qz = None\<rparr>,
      measurements = [],
      ok = False\<rparr>"

text \<open>
  A store \<^verbatim>\<open>v[i] = val\<close> into an \<^verbatim>\<open>Eigen::Vector3d\<close>. The result is \<^term>\<open>None\<close> when
  the index is not one of the vector's coefficients.
\<close>

definition Vector3d_store :: "nat \<Rightarrow> 'd \<Rightarrow> 'd option list \<Rightarrow> 'd option list option" where
  "Vector3d_store i val v = (if i < length v then Some (v[i := Some val]) else None)"

subsection \<open>Parsing one row\<close>

text \<open>
  \<^verbatim>\<open>csvtools::FieldParserHelper\<close> is declared in a header outside the translated file.
  The record holds the four conversions the functor uses: \<^verbatim>\<open>getFieldAs<double>\<close>,
  \<^verbatim>\<open>getField\<close> into the seconds, \<^verbatim>\<open>getField\<close> into the microseconds and
  \<^verbatim>\<open>getFieldAs<float>\<close>, each from the text of a field to the parsed value, \<^term>\<open>None\<close>
  when the conversion reports failure.
\<close>

record ('s, 'u, 'd, 'f) FieldParserHelper =
  getFieldAs_double :: "string \<Rightarrow> 'd option"
  getField_seconds :: "string \<Rightarrow> 's option"
  getField_microseconds :: "string \<Rightarrow> 'u option"
  getFieldAs_float :: "string \<Rightarrow> 'f option"

text \<open>
  The functor \<^verbatim>\<open>LoadRow\<close> with its members \<^verbatim>\<open>row_\<close>, \<^verbatim>\<open>field_\<close> and
  \<^verbatim>\<open>measurementPieces_\<close> (written here without the trailing underscore); the helper is
  an argument of the call.
\<close>

record ('s, 'u, 'd, 'f) LoadRow =
  row :: "('s, 'u, 'd, 'f) TimestampedMeasurements"
  field :: nat
  measurementPieces :: "'f list"

definition LoadRow_new :: "('s, 'u, 'd, 'f) TimestampedMeasurements \<Rightarrow> ('s, 'u, 'd, 'f) LoadRow" where
  "LoadRow_new r = \<lparr>row = r, field = 0, measurementPieces = []\<rparr>"

text \<open>
  A store into \<^verbatim>\<open>row_.xlate\<close> at an index outside the vector ends the defined run of the
  program: \<^verbatim>\<open>operator[]\<close> of Eigen checks the index with an assertion, which stops the
  process, and where the assertion is compiled out the store has undefined behaviour.
  \<open>OutOfRangeStore i f\<close> is that end: the index of the store, and the functor when the
  store is reached.
\<close>

datatype 'a stopped = OutOfRangeStore nat 'a

text \<open>
  \<^verbatim>\<open>LoadRow::operator()\<close> on the text of one field. The result is the returned boolean
  and the functor after the call, or the end of the run at an out-of-range store.
\<close>

definition LoadRow_call ::
  "('s, 'u, 'd, 'f) FieldParserHelper \<Rightarrow> string \<Rightarrow> ('s, 'u, 'd, 'f) LoadRow
   \<Rightarrow> ('s, 'u, 'd, 'f) LoadRow stopped + bool \<times> ('s, 'u, 'd, 'f) LoadRow" where
  "LoadRow_call helper strField this0 =
     (let this = this0\<lparr>field := field this0 + 1\<rparr>
      in if field this \<le> 3 then
           (case getFieldAs_double helper strField of
              None \<Rightarrow> Inr (False, this)
            | Some val \<Rightarrow>
                (case Vector3d_store (field this) val (xlate (row this)) of
                   Some v \<Rightarrow> Inr (True, this\<lparr>row := (row this)\<lparr>xlate := v\<rparr>\<rparr>)
                 | None \<Rightarrow> Inl (OutOfRangeStore (field this) this)))
         else if field this \<le> 7 then
           (case getFieldAs_double helper strField of
              None \<Rightarrow> Inr (False, this)
            | Some val \<Rightarrow>
                Inr (True,
                 if field this = 4 then this\<lparr>row := (row this)\<lparr>rot := (rot (row this))\<lparr>qw := Some val\<rparr>\<rparr>\<rparr>
                 else if field this = 5 then this\<lparr>row := (row this)\<lparr>rot := (rot (row this))\<lparr>qx := Some val\<rparr>\<rparr>\<rparr>
                 else if field this = 6 then this\<lparr>row := (row this)\<lparr>rot := (rot (row this))\<lparr>qy := Some val\<rparr>\<rparr>\<rparr>
                 else if field this = 7 then this\<lparr>row := (row this)\<lparr>rot := (rot (row this))\<lparr>qz := Some val\<rparr>\<rparr>\<rparr>
                 else this))
         else if field this = 8 then
           (case getField_seconds helper strField of
              None \<Rightarrow> Inr (False, this)
            | Some sec \<Rightarrow>
                Inr (True, this\<lparr>row := (row this)\<lparr>tv := (tv (row this))\<lparr>seconds := Some sec\<rparr>\<rparr>\<rparr>))
         else if field this = 9 then
           (case getField_microseconds helper strField of
              None \<Rightarrow> Inr (False, this)
            | Some usec \<Rightarrow>
                Inr (True, this\<lparr>row := (row this)\<lparr>tv := (tv (row this))\<lparr>microseconds := Some usec\<rparr>,
                                                  ok := True\<rparr>\<rparr>))
         else
           (case getFieldAs_float helper strField of
              None \<Rightarrow> Inr (False, this)
            | Some val \<Rightarrow>
                (let this = this\<lparr>measurementPieces := measurementPieces this @ [val]\<rparr>
                 in if length (measurementPieces this) = 3 then
                      Inr (True,
                       this\<lparr>row := (row this)\<lparr>measurements := measurements (row this) @
                                 [LedMeasurement (measurementPieces this ! 0) (measurementPieces this ! 1)
                                    (measurementPieces this ! 2) IMAGE_SIZE]\<rparr>,
                            measurementPieces := []\<rparr>)
                    else Inr (True, this))))"

text \<open>
  Modelled from the spec: \<^verbatim>\<open>csvtools::iterateFields\<close>, whose header \<^verbatim>\<open>CSVTools.h\<close> is
  not part of the translated file. The spec has the line tokenized into fields and a
  field-level parse failure end the row: the fields (already cut from the line) are handed
  to the functor in order, and the iteration stops after the first call that returns
  false. The result is the functor as the iteration leaves it, or the end of the run inside
  one of the calls.
\<close>

fun iterateFields ::
  "('s, 'u, 'd, 'f) FieldParserHelper \<Rightarrow> ('s, 'u, 'd, 'f) LoadRow \<Rightarrow> string list
   \<Rightarrow> ('s, 'u, 'd, 'f) LoadRow stopped + ('s, 'u, 'd, 'f) LoadRow" where
  "iterateFields helper f [] = Inr f"
| "iterateFields helper f (strField # rest) =
     (case LoadRow_call helper strField f of
        Inl e \<Rightarrow> Inl e
      | Inr (keepGoing, f') \<Rightarrow> if keepGoing then iterateFields helper f' rest else Inr f')"

subsection \<open>Loading the log\<close>

text \<open>
  An open \<^verbatim>\<open>std::ifstream\<close>: the lines that \<^verbatim>\<open>getline\<close> has still to yield, and the
  stream's fail bit. The conversion of the stream to \<^verbatim>\<open>bool\<close> is the negated fail bit.
\<close>

record ifstream =
  pending :: "string list"
  failbit :: bool

text \<open>
  Modelled from the spec: \<^verbatim>\<open>csvtools::getCleanLine\<close>, whose header \<^verbatim>\<open>CSVTools.h\<close> is not
  part of the translated file. It reads the next line of the stream; a read that finds no
  line left returns the empty string and sets the fail bit, as \<^verbatim>\<open>std::getline\<close> does.
\<close>

definition getCleanLine :: "ifstream \<Rightarrow> string \<times> ifstream" where
  "getCleanLine is =
     (case pending is of
        [] \<Rightarrow> ([], is\<lparr>failbit := True\<rparr>)
      | l # ls \<Rightarrow> (l, is\<lparr>pending := ls\<rparr>))"

text \<open>What \<^verbatim>\<open>loadData\<close> and the destructor of \<^verbatim>\<open>LoadRow\<close> print, in the order of printing.\<close>

datatype message =
  CouldNotOpen string
  | HeaderRowEmpty
  | LeftoverPieces
  | RowHasBlobs nat
  | ParsingWentWrong string
  | TotalRows nat

text \<open>
  The loop of \<^verbatim>\<open>loadData\<close>. \<open>fieldsOf\<close> is the tokenizer of \<^verbatim>\<open>iterateFields\<close>: it
  cuts a line into the texts of its fields. The temporary \<^verbatim>\<open>LoadRow\<close> is destroyed at
  the end of the statement that iterates, before the row is looked at. When the run ends
  inside the iteration, the loop returns nothing.
\<close>

function loadLoop ::
  "(string \<Rightarrow> string list) \<Rightarrow> ('s, 'u, 'd, 'f) FieldParserHelper \<Rightarrow> string \<Rightarrow> ifstream
   \<Rightarrow> ('s, 'u, 'd, 'f) TimestampedMeasurements list \<Rightarrow> message list
   \<Rightarrow> ('s, 'u, 'd, 'f) LoadRow stopped + ('s, 'u, 'd, 'f) TimestampedMeasurements list \<times> message list" where
  "loadLoop fieldsOf helper dataLine csvFile ret out =
     (if failbit csvFile then Inr (ret, out)
      else
        (case iterateFields helper (LoadRow_new TimestampedMeasurements_new) (fieldsOf dataLine) of
           Inl e \<Rightarrow> Inl e
         | Inr f \<Rightarrow>
             (let newRow = row f;
                  out = (if measurementPieces f \<noteq> [] then out @ [LeftoverPieces] else out);
                  ret' = (if ok newRow then ret @ [newRow] else ret);
                  out = (if ok newRow then out @ [RowHasBlobs (length (measurements newRow))]
                         else out @ [ParsingWentWrong dataLine])
              in loadLoop fieldsOf helper (fst (getCleanLine csvFile)) (snd (getCleanLine csvFile))
                   ret' out)))"
  by pat_completeness auto
termination
  by (relation "measure (\<lambda>(fieldsOf, helper, dataLine, csvFile, ret, out).
        if failbit csvFile then 0 else Suc (length (pending csvFile)))")
     (auto simp: getCleanLine_def split: list.splits)

declare loadLoop.simps [simp del]

text \<open>
  \<^verbatim>\<open>loadData(fn)\<close>. \<open>files\<close> is the file system: the lines of the file at a path, or
  \<^term>\<open>None\<close> where the stream cannot be opened. The result is the returned vector of
  rows and the messages printed, or the end of the run inside the loop.
\<close>

definition loadData ::
  "(string \<Rightarrow> string list option) \<Rightarrow> (string \<Rightarrow> string list) \<Rightarrow> ('s, 'u, 'd, 'f) FieldParserHelper
   \<Rightarrow> string
   \<Rightarrow> ('s, 'u, 'd, 'f) LoadRow stopped + ('s, 'u, 'd, 'f) TimestampedMeasurements list \<times> message list" where
  "loadData files fieldsOf helper fn =
     (case files fn of
        None \<Rightarrow> Inr ([], [CouldNotOpen fn])
      | Some content \<Rightarrow>
          (let csvFile = \<lparr>pending = content, failbit = False\<rparr>;
               (headerRow, csvFile) = getCleanLine csvFile
           in if headerRow = [] \<or> failbit csvFile then Inr ([], [HeaderRowEmpty])
              else
                (let (dataLine, csvFile) = getCleanLine csvFile
                 in case loadLoop fieldsOf helper dataLine csvFile [] [] of
                      Inl e \<Rightarrow> Inl e
                    | Inr (ret, out) \<Rightarrow> Inr (ret, out @ [TotalRows (length ret)]))))"

text \<open>
  Sample parameters for the concrete instances: fields separated by commas, a helper that
  reads every number as an unsigned decimal numeral, and a file system.
\<close>

fun splitFields :: "char \<Rightarrow> string \<Rightarrow> string list" where
  "splitFields sep [] = [[]]"
| "splitFields sep (c # cs) =
     (if c = sep then [] # splitFields sep cs
      else (case splitFields sep cs of g # gs \<Rightarrow> (c # g) # gs | [] \<Rightarrow> [[c]]))"

definition digitValue :: "char \<Rightarrow> nat option" where
  "digitValue c =
     (if 48 \<le> (of_char c :: nat) \<and> (of_char c :: nat) \<le> 57 then Some (of_char c - 48) else None)"

fun decimalFrom :: "nat \<Rightarrow> string \<Rightarrow> nat option" where
  "decimalFrom acc [] = Some acc"
| "decimalFrom acc (c # cs) =
     (case digitValue c of None \<Rightarrow> None | Some d \<Rightarrow> decimalFrom (10 * acc + d) cs)"

definition decimal :: "string \<Rightarrow> nat option" where
  "decimal s = (if s = [] then None else decimalFrom 0 s)"

definition decimalHelper :: "(nat, nat, nat, nat) FieldParserHelper" where
  "decimalHelper = \<lparr>getFieldAs_double = decimal, getField_seconds = decimal,
                     getField_microseconds = decimal, getFieldAs_float = decimal\<rparr>"

definition sampleFiles :: "string \<Rightarrow> string list option" where
  "sampleFiles fn =
     (if fn = ''log.csv''
      then Some [''refx,refy,refz'', ''x,2,3,1,0,0,0,5,6'', ''1,2,3,x,0,0,0,5,6'', ''1,2,3,1,0,0,0,5,6'']
      else if fn = ''beacons.csv''
      then Some [''refx,refy,refz'', ''1,2,3,1,0,0,0,5,6,10,11,12,13'']
      else if fn = ''empty.csv'' then Some []
      else if fn = ''noheader.csv'' then Some [[], ''1,2,3,1,0,0,0,5,6'']
      else None)"

subsection \<open>Notions used in the statements\<close>

text \<open>
  The statement \<^verbatim>\<open>csvtools::iterateFields(LoadRow(helper, *newRow), dataLine)\<close> of the
  loop, for a new row.
\<close>

definition parseLine ::
  "(string \<Rightarrow> string list) \<Rightarrow> ('s, 'u, 'd, 'f) FieldParserHelper \<Rightarrow> string
   \<Rightarrow> ('s, 'u, 'd, 'f) LoadRow stopped + ('s, 'u, 'd, 'f) LoadRow" where
  "parseLine fieldsOf helper dataLine =
     iterateFields helper (LoadRow_new TimestampedMeasurements_new) (fieldsOf dataLine)"

text \<open>The index of the out-of-range store at which a run ends, if it ends at one.\<close>

definition stoppedAt :: "'a stopped + 'b \<Rightarrow> nat option" where
  "stoppedAt r = (case r of Inl (OutOfRangeStore i f) \<Rightarrow> Some i | Inr v \<Rightarrow> None)"

text \<open>What the loop prints for one line whose iteration returns the functor \<open>f\<close>.\<close>

definition lineMessages :: "string \<Rightarrow> ('s, 'u, 'd, 'f) LoadRow \<Rightarrow> message list" where
  "lineMessages dataLine f =
     (if measurementPieces f \<noteq> [] then [LeftoverPieces] else []) @
     (if ok (row f) then [RowHasBlobs (length (measurements (row f)))]
      else [ParsingWentWrong dataLine])"

text \<open>A list cut into consecutive triples, and the one or two elements left over at its end.\<close>

fun triples :: "'a list \<Rightarrow> ('a \<times> 'a \<times> 'a) list" where
  "triples (a # b # c # r) = (a, b, c) # triples r"
| "triples r = []"

fun leftover :: "'a list \<Rightarrow> 'a list" where
  "leftover (a # b # c # r) = leftover r"
| "leftover r = r"

definition led :: "'f \<times> 'f \<times> 'f \<Rightarrow> 'f LedMeasurement" where
  "led t = (case t of (a, b, c) \<Rightarrow> LedMeasurement a b c IMAGE_SIZE)"

subsection \<open>The objective function and \<^verbatim>\<open>runOptimizer\<close>\<close>

text \<open>
  The lambda handed to \<^verbatim>\<open>ei_newuoa\<close>. \<open>defaultParams\<close> is the default-constructed
  \<^verbatim>\<open>ConfigParams\<close>, \<open>makeHDKTrackingSystem\<close> the factory and \<open>getTarget\<close> the lookup
  \<^verbatim>\<open>system->getBody(BodyId(0)).getTarget(TargetId(0))\<close>. \<^verbatim>\<open>runOptimizer\<close> prints the
  value the wrapper returns and returns the vector.
\<close>

definition objective ::
  "('a, 'm) ConfigParams_scheme \<Rightarrow> (('a, 'm) ConfigParams_scheme \<Rightarrow> 'sys) \<Rightarrow> ('sys \<Rightarrow> 'tgt)
   \<Rightarrow> int \<Rightarrow> 'a list \<Rightarrow> real" where
  "objective defaultParams makeHDKTrackingSystem getTarget n x =
     (let params = updateConfigFromVec defaultParams x;
          system = makeHDKTrackingSystem params;
          target = getTarget system
      in 0)"

definition initialValues :: "real list" where
  "initialValues = [414 / 100000000, 1 / 100, 0, 5 / 100]"

definition runOptimizer ::
  "int \<Rightarrow> (int \<Rightarrow> bool)
   \<Rightarrow> ((int \<Rightarrow> real list \<Rightarrow> real) \<Rightarrow> int \<Rightarrow> int \<Rightarrow> real list \<Rightarrow> double \<Rightarrow> double \<Rightarrow> int \<Rightarrow> int \<Rightarrow> 'v \<times> real list)
   \<Rightarrow> (real, 'm) ConfigParams_scheme \<Rightarrow> ((real, 'm) ConfigParams_scheme \<Rightarrow> 'sys) \<Rightarrow> ('sys \<Rightarrow> 'tgt)
   \<Rightarrow> wrapperError + real list" where
  "runOptimizer LONG_MAX allocates newuoa defaultParams makeHDKTrackingSystem getTarget =
     (let x = initialValues;
          npt = int (length x) * 2
      in case ei_newuoa LONG_MAX allocates newuoa npt x (Finite (1 / 10 ^ 8), Finite (1 / 10 ^ 4)) 10
                (objective defaultParams makeHDKTrackingSystem getTarget) of
           Inl e \<Rightarrow> Inl e
         | Inr (ret, x) \<Rightarrow> Inr x)"

subsection \<open>The pose filter\<close>

text \<open>
  \<^verbatim>\<open>PoseFilter\<close> owns two one-euro filters. The class \<^verbatim>\<open>OneEuroFilter\<close> comes from a
  header outside the translated file: a filter object is a value of a type variable, and
  its member \<^verbatim>\<open>filter(dt, x)\<close> is a parameter that maps the time step, the sample and
  the object to the updated object (\<open>positionFilter_filter\<close> for the position filter,
  \<open>orientationFilter_filter\<close> for the orientation filter); \<^verbatim>\<open>getState()\<close> is a
  parameter as well.
\<close>

record ('pf, 'qf) PoseFilter =
  m_positionFilter :: 'pf
  m_orientationFilter :: 'qf

definition PoseFilter_filter ::
  "(real \<Rightarrow> 'p \<Rightarrow> 'pf \<Rightarrow> 'pf) \<Rightarrow> (real \<Rightarrow> 'q \<Rightarrow> 'qf \<Rightarrow> 'qf)
   \<Rightarrow> real \<Rightarrow> 'p \<Rightarrow> 'q \<Rightarrow> ('pf, 'qf) PoseFilter \<Rightarrow> ('pf, 'qf) PoseFilter" where
  "PoseFilter_filter positionFilter_filter orientationFilter_filter dt position orientation this =
     (let dt = (if dt \<le> 0 then 1 else dt);
          this = this\<lparr>m_positionFilter := positionFilter_filter dt position (m_positionFilter this)\<rparr>;
          this = this\<lparr>m_orientationFilter :=
                   orientationFilter_filter dt orientation (m_orientationFilter this)\<rparr>
      in this)"

definition getPosition :: "('pf \<Rightarrow> 'p) \<Rightarrow> ('pf, 'qf) PoseFilter \<Rightarrow> 'p" where
  "getPosition getState this = getState (m_positionFilter this)"

definition getOrientation :: "('qf \<Rightarrow> 'q) \<Rightarrow> ('pf, 'qf) PoseFilter \<Rightarrow> 'q" where
  "getOrientation getState this = getState (m_orientationFilter this)"

subsection \<open>The RANSAC and one-euro strategy\<close>

text \<open>
  \<^verbatim>\<open>RansacOneEuro\<close>. The member \<^verbatim>\<open>last\<close> is a \<^verbatim>\<open>TimeValue\<close>, a value of a type
  variable; \<open>osvrTimeValueDurationSeconds a b\<close> is the parameter for the library function
  of that name (the seconds from \<open>b\<close> to \<open>a\<close>). The call
  \<^verbatim>\<open>target.uncalibratedRANSACPoseEstimateFromLeds(camParams, pos, quat)\<close> is an input of
  the step: \<^term>\<open>None\<close> when it returns false, \<open>Some (pos, quat)\<close> when it returns true
  with the pose it stored. The line printed to the console is not part of the state.
\<close>

record ('pf, 'qf, 'tv) RansacOneEuro =
  ransacPoseFilter :: "('pf, 'qf) PoseFilter"
  last :: 'tv
  isFirst :: bool
  gotPose :: bool

text \<open>
  A freshly constructed object: \<^verbatim>\<open>isFirst = true\<close>, \<^verbatim>\<open>gotPose = false\<close>; \<^verbatim>\<open>last\<close> is
  not initialised, its content \<open>indeterminate\<close> is a parameter.
\<close>

definition RansacOneEuro_new :: "('pf, 'qf) PoseFilter \<Rightarrow> 'tv \<Rightarrow> ('pf, 'qf, 'tv) RansacOneEuro" where
  "RansacOneEuro_new poseFilter indeterminate =
     \<lparr>ransacPoseFilter = poseFilter, last = indeterminate, isFirst = True, gotPose = False\<rparr>"

definition RansacOneEuro_call ::
  "(real \<Rightarrow> 'p \<Rightarrow> 'pf \<Rightarrow> 'pf) \<Rightarrow> (real \<Rightarrow> 'q \<Rightarrow> 'qf \<Rightarrow> 'qf) \<Rightarrow> ('tv \<Rightarrow> 'tv \<Rightarrow> real)
   \<Rightarrow> ('p \<times> 'q) option \<Rightarrow> 'tv \<Rightarrow> ('pf, 'qf, 'tv) RansacOneEuro \<Rightarrow> ('pf, 'qf, 'tv) RansacOneEuro" where
  "RansacOneEuro_call positionFilter_filter orientationFilter_filter osvrTimeValueDurationSeconds
       gotRansac row_tv this =
     (let this = this\<lparr>gotPose := False\<rparr>
      in case gotRansac of
           None \<Rightarrow> this
         | Some (pos, quat) \<Rightarrow>
             (let dt = 1;
                  (dt, this) = (if isFirst this then (dt, this\<lparr>isFirst := False\<rparr>)
                                else (osvrTimeValueDurationSeconds row_tv (last this), this));
                  this = this\<lparr>ransacPoseFilter :=
                           PoseFilter_filter positionFilter_filter orientationFilter_filter
                             dt pos quat (ransacPoseFilter this)\<rparr>;
                  this = this\<lparr>last := row_tv\<rparr>
              in this\<lparr>gotPose := True\<rparr>))"

text \<open>
  The loop of \<^verbatim>\<open>main\<close> calls the strategy once per row, in the order of the log; a row
  is given here by the outcome of the RANSAC routine at that row and the row's timestamp.
\<close>

fun RansacOneEuro_run ::
  "(real \<Rightarrow> 'p \<Rightarrow> 'pf \<Rightarrow> 'pf) \<Rightarrow> (real \<Rightarrow> 'q \<Rightarrow> 'qf \<Rightarrow> 'qf) \<Rightarrow> ('tv \<Rightarrow> 'tv \<Rightarrow> real)
   \<Rightarrow> (('p \<times> 'q) option \<times> 'tv) list \<Rightarrow> ('pf, 'qf, 'tv) RansacOneEuro \<Rightarrow> ('pf, 'qf, 'tv) RansacOneEuro" where
  "RansacOneEuro_run pf qf dur [] this = this"
| "RansacOneEuro_run pf qf dur ((gotRansac, row_tv) # rows) this =
     RansacOneEuro_run pf qf dur rows (RansacOneEuro_call pf qf dur gotRansac row_tv this)"

text \<open>Sample parameters for the concrete instances: filters that record the samples they are given.\<close>

definition recordingFilter :: "real \<Rightarrow> 'x \<Rightarrow> (real \<times> 'x) list \<Rightarrow> (real \<times> 'x) list" where
  "recordingFilter dt x history = history @ [(dt, x)]"

definition secondsBetween :: "int \<Rightarrow> int \<Rightarrow> real" where
  "secondsBetween a b = real_of_int (a - b)"

section \<open>Properties\<close>

subsection \<open>The parameter vector and the configuration\<close>

text \<open>
  Claim C4. For every parameter vector \<open>[a, b, c, d]\<close>, \<^verbatim>\<open>updateConfigFromVec\<close> yields a
  configuration whose process-noise autocorrelation array holds \<open>a\<close> at the indices 0, 1
  and 2 and \<open>b\<close> at the indices 3, 4 and 5, whose beacon process noise is \<open>c\<close> and whose
  measurement-variance scale factor is \<open>d\<close>. The array has six slots (its declared size);
  the other slots of the configuration do not matter.
\<close>

theorem updateConfigFromVec_maps:
  assumes "length (processNoiseAutocorrelation params) = 6"
  shows "processNoiseAutocorrelation (updateConfigFromVec params [a, b, c, d]) = [a, a, a, b, b, b]
       \<and> beaconProcessNoise (updateConfigFromVec params [a, b, c, d]) = c
       \<and> measurementVarianceScaleFactor (updateConfigFromVec params [a, b, c, d]) = d"
proof -
  obtain p0 p1 p2 p3 p4 p5 where ps: "processNoiseAutocorrelation params = [p0, p1, p2, p3, p4, p5]"
    using assms by (auto simp: length_Suc_conv eval_nat_numeral)
  show ?thesis
    by (simp add: updateConfigFromVec_def Let_def ps eval_nat_numeral)
qed

theorem updateConfigFromVec_maps_witness:
  "length (processNoiseAutocorrelation
     \<lparr>processNoiseAutocorrelation = [0, 0, 0, 0, 0, 0 :: int], beaconProcessNoise = 0,
      measurementVarianceScaleFactor = 0\<rparr>) = 6
   \<and> processNoiseAutocorrelation (updateConfigFromVec
       \<lparr>processNoiseAutocorrelation = [0, 0, 0, 0, 0, 0 :: int], beaconProcessNoise = 0,
        measurementVarianceScaleFactor = 0\<rparr> [7, 8, 9, 10]) = [7, 7, 7, 8, 8, 8]
   \<and> beaconProcessNoise (updateConfigFromVec
       \<lparr>processNoiseAutocorrelation = [0, 0, 0, 0, 0, 0 :: int], beaconProcessNoise = 0,
        measurementVarianceScaleFactor = 0\<rparr> [7, 8, 9, 10]) = 9
   \<and> measurementVarianceScaleFactor (updateConfigFromVec
       \<lparr>processNoiseAutocorrelation = [0, 0, 0, 0, 0, 0 :: int], beaconProcessNoise = 0,
        measurementVarianceScaleFactor = 0\<rparr> [7, 8, 9, 10]) = 10"
  using updateConfigFromVec_maps [of "\<lparr>processNoiseAutocorrelation = [0, 0, 0, 0, 0, 0 :: int],
      beaconProcessNoise = 0, measurementVarianceScaleFactor = 0\<rparr>" 7 8 9 10]
  by simp

subsection \<open>The optimizer wrapper\<close>






text \<open>
  Claim C9. For every candidate vector, the objective function that \<^verbatim>\<open>runOptimizer\<close>
  hands to the wrapper returns 0, whatever the configuration, the tracking system and the
  target built from the vector are.
\<close>

theorem objective_zero:
  "objective defaultParams makeHDKTrackingSystem getTarget n x = 0"
  by (simp add: objective_def Let_def)

subsection \<open>The pose filter and the RANSAC strategy\<close>

lemma RansacOneEuro_call_fail:
  "RansacOneEuro_call pf qf dur None t this = this\<lparr>gotPose := False\<rparr>"
  by (simp add: RansacOneEuro_call_def)

lemma RansacOneEuro_call_ok:
  "RansacOneEuro_call pf qf dur (Some (p, q)) t this =
     this\<lparr>ransacPoseFilter :=
            PoseFilter_filter pf qf (if isFirst this then 1 else dur t (last this)) p q
              (ransacPoseFilter this),
          last := t, isFirst := False, gotPose := True\<rparr>"
  by (cases "isFirst this") (simp_all add: RansacOneEuro_call_def Let_def)

lemma RansacOneEuro_run_fails:
  "\<forall>r \<in> set rows. fst r = None \<Longrightarrow>
   RansacOneEuro_run pf qf dur rows this = (if rows = [] then this else this\<lparr>gotPose := False\<rparr>)"
proof (induction rows arbitrary: this)
  case Nil
  show ?case by simp
next
  case (Cons r rows)
  obtain g t where r: "r = (g, t)" by (cases r)
  with Cons.prems have g: "g = None" by simp
  from Cons.prems have "\<forall>r \<in> set rows. fst r = None" by simp
  from Cons.IH [OF this] show ?case
    by (simp add: r g RansacOneEuro_call_fail)
qed

text \<open>
  Claim C6. For every position, orientation and prior filter state, \<^verbatim>\<open>PoseFilter::filter\<close>
  called with a time step that is zero or negative leaves the filter in exactly the state
  that the call with time step 1 leaves it in, so the smoothed position and orientation
  read from it are the same: the time step is clamped, the call is not rejected.
\<close>

theorem PoseFilter_filter_clamp:
  assumes "dt \<le> 0"
  shows "PoseFilter_filter pf qf dt p q this = PoseFilter_filter pf qf 1 p q this
       \<and> getPosition getP (PoseFilter_filter pf qf dt p q this)
           = getPosition getP (PoseFilter_filter pf qf 1 p q this)
       \<and> getOrientation getQ (PoseFilter_filter pf qf dt p q this)
           = getOrientation getQ (PoseFilter_filter pf qf 1 p q this)"
  using assms by (simp add: PoseFilter_filter_def)

theorem PoseFilter_filter_clamp_witness:
  "(-5::real) \<le> 0 \<and> (0::real) \<le> 0
   \<and> PoseFilter_filter recordingFilter recordingFilter (-5) (3::int) (4::int)
        \<lparr>m_positionFilter = [], m_orientationFilter = []\<rparr>
       = \<lparr>m_positionFilter = [(1, 3)], m_orientationFilter = [(1, 4)]\<rparr>
   \<and> PoseFilter_filter recordingFilter recordingFilter 0 (3::int) (4::int)
        \<lparr>m_positionFilter = [], m_orientationFilter = []\<rparr>
       = \<lparr>m_positionFilter = [(1, 3)], m_orientationFilter = [(1, 4)]\<rparr>"
  using PoseFilter_filter_clamp [of "-5" recordingFilter recordingFilter "3::int" "4::int"
          "\<lparr>m_positionFilter = [], m_orientationFilter = []\<rparr>" id id]
        PoseFilter_filter_clamp [of 0 recordingFilter recordingFilter "3::int" "4::int"
          "\<lparr>m_positionFilter = [], m_orientationFilter = []\<rparr>" id id]
  by (simp add: PoseFilter_filter_def recordingFilter_def)

text \<open>
  Claim C5. In the RANSAC and filter strategy, the first successful row feeds the time
  step 1 to the pose filter. A row at which RANSAC fails reports no pose and changes
  neither the stored timestamp, nor the filter, nor the first-row flag. Hence, for two
  successful rows with only failed rows between them, the time step fed to the filter at
  the second success is the duration from the timestamp of the first success to the
  timestamp of the second, whatever the timestamps of the failed rows are.
\<close>

theorem RansacOneEuro_dt:
  "(isFirst this \<longrightarrow>
      ransacPoseFilter (RansacOneEuro_call pf qf dur (Some (p, q)) t this)
        = PoseFilter_filter pf qf 1 p q (ransacPoseFilter this)
      \<and> gotPose (RansacOneEuro_call pf qf dur (Some (p, q)) t this))
   \<and> \<not> gotPose (RansacOneEuro_call pf qf dur None t this)
   \<and> last (RansacOneEuro_call pf qf dur None t this) = last this
   \<and> isFirst (RansacOneEuro_call pf qf dur None t this) = isFirst this
   \<and> ransacPoseFilter (RansacOneEuro_call pf qf dur None t this) = ransacPoseFilter this
   \<and> ((\<forall>r \<in> set failed. fst r = None) \<longrightarrow>
        (let s0 = RansacOneEuro_call pf qf dur (Some (p0, q0)) tv0 this;
             s1 = RansacOneEuro_run pf qf dur failed s0;
             s2 = RansacOneEuro_call pf qf dur (Some (p2, q2)) tv2 s1
         in ransacPoseFilter s2
              = PoseFilter_filter pf qf (dur tv2 tv0) p2 q2 (ransacPoseFilter s0)
            \<and> last s2 = tv2 \<and> gotPose s2))"
proof -
  have first: "isFirst this \<longrightarrow>
      ransacPoseFilter (RansacOneEuro_call pf qf dur (Some (p, q)) t this)
        = PoseFilter_filter pf qf 1 p q (ransacPoseFilter this)
      \<and> gotPose (RansacOneEuro_call pf qf dur (Some (p, q)) t this)"
    by (simp add: RansacOneEuro_call_ok)
  have fail: "\<not> gotPose (RansacOneEuro_call pf qf dur None t this)
      \<and> last (RansacOneEuro_call pf qf dur None t this) = last this
      \<and> isFirst (RansacOneEuro_call pf qf dur None t this) = isFirst this
      \<and> ransacPoseFilter (RansacOneEuro_call pf qf dur None t this) = ransacPoseFilter this"
    by (simp add: RansacOneEuro_call_fail)
  have seq: "(\<forall>r \<in> set failed. fst r = None) \<longrightarrow>
        (let s0 = RansacOneEuro_call pf qf dur (Some (p0, q0)) tv0 this;
             s1 = RansacOneEuro_run pf qf dur failed s0;
             s2 = RansacOneEuro_call pf qf dur (Some (p2, q2)) tv2 s1
         in ransacPoseFilter s2
              = PoseFilter_filter pf qf (dur tv2 tv0) p2 q2 (ransacPoseFilter s0)
            \<and> last s2 = tv2 \<and> gotPose s2)"
  proof
    assume f: "\<forall>r \<in> set failed. fst r = None"
    define s0 where "s0 = RansacOneEuro_call pf qf dur (Some (p0, q0)) tv0 this"
    have s0: "\<not> isFirst s0 \<and> last s0 = tv0"
      by (simp add: s0_def RansacOneEuro_call_ok)
    have s1: "RansacOneEuro_run pf qf dur failed s0 = (if failed = [] then s0 else s0\<lparr>gotPose := False\<rparr>)"
      by (rule RansacOneEuro_run_fails [OF f])
    show "let s0 = RansacOneEuro_call pf qf dur (Some (p0, q0)) tv0 this;
             s1 = RansacOneEuro_run pf qf dur failed s0;
             s2 = RansacOneEuro_call pf qf dur (Some (p2, q2)) tv2 s1
         in ransacPoseFilter s2
              = PoseFilter_filter pf qf (dur tv2 tv0) p2 q2 (ransacPoseFilter s0)
            \<and> last s2 = tv2 \<and> gotPose s2"
      unfolding Let_def s0_def [symmetric] s1
      using s0 by (simp add: RansacOneEuro_call_ok)
  qed
  from first fail seq show ?thesis by blast
qed

theorem RansacOneEuro_dt_witness:
  "isFirst (RansacOneEuro_new \<lparr>m_positionFilter = [], m_orientationFilter = []\<rparr> (0::int))
   \<and> ransacPoseFilter
        (RansacOneEuro_call recordingFilter recordingFilter secondsBetween (Some (1::int, 2::int)) 10
          (RansacOneEuro_new \<lparr>m_positionFilter = [], m_orientationFilter = []\<rparr> 0))
       = \<lparr>m_positionFilter = [(1, 1)], m_orientationFilter = [(1, 2)]\<rparr>
   \<and> ransacPoseFilter
        (RansacOneEuro_run recordingFilter recordingFilter secondsBetween
          [(Some (1::int, 2::int), 10), (None, 15), (None, 17), (Some (3, 4), 20)]
          (RansacOneEuro_new \<lparr>m_positionFilter = [], m_orientationFilter = []\<rparr> (0::int)))
       = \<lparr>m_positionFilter = [(1, 1), (10, 3)], m_orientationFilter = [(1, 2), (10, 4)]\<rparr>"
  using RansacOneEuro_dt [where pf = recordingFilter and qf = recordingFilter
          and dur = secondsBetween
          and this = "RansacOneEuro_new \<lparr>m_positionFilter = [], m_orientationFilter = []\<rparr> (0::int)"
          and p = "1::int" and q = "2::int" and t = "10::int"
          and failed = "[(None :: (int \<times> int) option, 15::int), (None, 17)]"
          and ?p0.0 = "1::int" and ?q0.0 = "2::int" and ?tv0.0 = "10::int"
          and ?p2.0 = "3::int" and ?q2.0 = "4::int" and ?tv2.0 = "20::int"]
  by (simp add: RansacOneEuro_new_def RansacOneEuro_call_ok RansacOneEuro_call_fail
        PoseFilter_filter_def recordingFilter_def secondsBetween_def Let_def)

section \<open>Properties of the loader\<close>

subsection \<open>One call of the functor\<close>

lemma iterateFields_Cons:
  "iterateFields H f (s # ss) =
     (case LoadRow_call H s f of
        Inl e \<Rightarrow> Inl e
      | Inr r \<Rightarrow> if fst r then iterateFields H (snd r) ss else Inr (snd r))"
  by (simp add: case_prod_beta split: sum.splits)

lemma LoadRow_call_translation:
  assumes "field f < 3" and "length (xlate (row f)) = 3"
  shows "LoadRow_call H s f =
     (case getFieldAs_double H s of
        None \<Rightarrow> Inr (False, f\<lparr>field := Suc (field f)\<rparr>)
      | Some v \<Rightarrow>
          if field f = 2 then Inl (OutOfRangeStore 3 (f\<lparr>field := 3\<rparr>))
          else Inr (True, f\<lparr>row := (row f)\<lparr>xlate := (xlate (row f))[Suc (field f) := Some v]\<rparr>,
                           field := Suc (field f)\<rparr>))"
  using assms by (auto simp: LoadRow_call_def Let_def Vector3d_store_def split: option.splits)

lemma LoadRow_call_float:
  assumes "9 \<le> field f" and "getFieldAs_float H s = Some v"
  shows "LoadRow_call H s f =
     Inr (True,
      if length (measurementPieces f) = 2
      then f\<lparr>row := (row f)\<lparr>measurements := measurements (row f) @
                  [LedMeasurement (measurementPieces f ! 0) (measurementPieces f ! 1) v IMAGE_SIZE]\<rparr>,
             field := Suc (field f), measurementPieces := []\<rparr>
      else f\<lparr>field := Suc (field f), measurementPieces := measurementPieces f @ [v]\<rparr>)"
  using assms by (simp add: LoadRow_call_def Let_def nth_append)

lemma LoadRow_call_float_failure:
  assumes "9 \<le> field f" and "getFieldAs_float H s = None"
  shows "LoadRow_call H s f = Inr (False, f\<lparr>field := Suc (field f)\<rparr>)"
  using assms by (simp add: LoadRow_call_def Let_def)

subsection \<open>Every row with three parsable leading fields ends the run\<close>

lemma parseLine_stops:
  assumes "F l = f0 # f1 # f2 # ss"
    and "getFieldAs_double H f0 = Some v0" and "getFieldAs_double H f1 = Some v1"
    and "getFieldAs_double H f2 = Some v2"
  shows "parseLine F H l =
     Inl (OutOfRangeStore 3
       \<lparr>row = \<lparr>tv = \<lparr>seconds = None, microseconds = None\<rparr>,
               xlate = [None, Some v0, Some v1],
               rot = \<lparr>qw = None, qx = None, qy = None, qz = None\<rparr>,
               measurements = [], ok = False\<rparr>,
        field = 3, measurementPieces = []\<rparr>)"
  by (simp add: parseLine_def assms LoadRow_call_def LoadRow_new_def TimestampedMeasurements_new_def
        Vector3d_store_def)

lemma iterateFields_never_ok:
  "field f < 3 \<Longrightarrow> \<not> ok (row f) \<Longrightarrow> length (xlate (row f)) = 3 \<Longrightarrow>
   iterateFields H f ss = Inr f' \<Longrightarrow> \<not> ok (row f')"
proof (induction ss arbitrary: f)
  case Nil
  then show ?case by simp
next
  case (Cons s ss)
  note call = LoadRow_call_translation [OF Cons.prems(1) Cons.prems(3), of H s]
  show ?case
  proof (cases "getFieldAs_double H s")
    case None
    with Cons.prems call show ?thesis
      by (auto simp: iterateFields_Cons)
  next
    case (Some v)
    show ?thesis
    proof (cases "field f = 2")
      case True
      with Some call Cons.prems(4) show ?thesis
        by (simp add: iterateFields_Cons)
    next
      case False
      let ?f' = "f\<lparr>row := (row f)\<lparr>xlate := (xlate (row f))[Suc (field f) := Some v]\<rparr>,
                    field := Suc (field f)\<rparr>"
      from False Cons.prems have "field ?f' < 3" "\<not> ok (row ?f')" "length (xlate (row ?f')) = 3"
        by simp_all
      moreover from Some False call Cons.prems(4) have "iterateFields H ?f' ss = Inr f'"
        by (simp add: iterateFields_Cons)
      ultimately show ?thesis by (rule Cons.IH)
    qed
  qed
qed

lemma parseLine_never_ok:
  "parseLine F H l = Inr f \<Longrightarrow> \<not> ok (row f)"
  unfolding parseLine_def
  by (rule iterateFields_never_ok [of "LoadRow_new TimestampedMeasurements_new"])
     (simp_all add: LoadRow_new_def TimestampedMeasurements_new_def)

subsection \<open>The loop over the lines\<close>

lemma loadLoop_failed:
  "failbit csvFile \<Longrightarrow> loadLoop F H l csvFile ret out = Inr (ret, out)"
  by (subst loadLoop.simps) simp

lemma loadLoop_stop:
  "\<not> failbit csvFile \<Longrightarrow> parseLine F H l = Inl e \<Longrightarrow> loadLoop F H l csvFile ret out = Inl e"
  by (subst loadLoop.simps) (simp add: parseLine_def)

lemma loadLoop_step:
  "\<not> failbit csvFile \<Longrightarrow> parseLine F H l = Inr f \<Longrightarrow>
   loadLoop F H l csvFile ret out =
     loadLoop F H (fst (getCleanLine csvFile)) (snd (getCleanLine csvFile))
       (if ok (row f) then ret @ [row f] else ret) (out @ lineMessages l f)"
  by (subst loadLoop.simps) (simp add: Let_def parseLine_def lineMessages_def)

lemma loadLoop_rows:
  "loadLoop F H l csvFile ret out = Inr (rows, out') \<Longrightarrow> rows = ret"
proof (induction "pending csvFile" arbitrary: csvFile l ret out)
  case Nil
  show ?case
  proof (cases "failbit csvFile")
    case True
    with Nil.prems show ?thesis by (simp add: loadLoop_failed)
  next
    case False
    from Nil.hyps have g: "getCleanLine csvFile = ([], csvFile\<lparr>failbit := True\<rparr>)"
      by (simp add: getCleanLine_def)
    show ?thesis
    proof (cases "parseLine F H l")
      case (Inl e)
      with False Nil.prems show ?thesis by (simp add: loadLoop_stop)
    next
      case (Inr f)
      with False Nil.prems parseLine_never_ok [OF Inr] show ?thesis
        by (simp add: loadLoop_step [OF False Inr] g loadLoop_failed)
    qed
  qed
next
  case (Cons a as)
  show ?case
  proof (cases "failbit csvFile")
    case True
    with Cons.prems show ?thesis by (simp add: loadLoop_failed)
  next
    case False
    from Cons.hyps(2) have pc: "pending csvFile = a # as" by simp
    then have g: "getCleanLine csvFile = (a, csvFile\<lparr>pending := as\<rparr>)"
      by (simp add: getCleanLine_def)
    have p: "as = pending (csvFile\<lparr>pending := as\<rparr>)" by simp
    show ?thesis
    proof (cases "parseLine F H l")
      case (Inl e)
      with False Cons.prems show ?thesis by (simp add: loadLoop_stop)
    next
      case (Inr f)
      from Cons.prems parseLine_never_ok [OF Inr]
      have "loadLoop F H a (csvFile\<lparr>pending := as\<rparr>) ret (out @ lineMessages l f) = Inr (rows, out')"
        by (simp add: loadLoop_step [OF False Inr] g)
      from Cons.hyps(1) [OF p this] show ?thesis .
    qed
  qed
qed

lemma loadData_no_rows:
  "loadData files F H fn = Inr (rows, out) \<Longrightarrow> rows = []"
  by (auto simp: loadData_def Let_def case_prod_beta
        split: option.splits if_splits sum.splits dest: loadLoop_rows)

subsection \<open>The beacon fields\<close>

lemma length_triples: "length (triples xs) = length xs div 3"
  by (induction xs rule: triples.induct) simp_all

lemma length_leftover: "length (leftover xs) = length xs mod 3"
  by (induction xs rule: leftover.induct) simp_all

lemma short_pieces:
  "length p < 3 \<Longrightarrow> p = [] \<or> (\<exists>a. p = [a]) \<or> (\<exists>a b. p = [a, b])"
  by (cases p rule: triples.cases) auto

lemma iterateFields_beacons:
  "9 \<le> field f \<Longrightarrow> length (measurementPieces f) < 3 \<Longrightarrow>
   map (getFieldAs_float H) ss = map Some vs \<Longrightarrow>
   iterateFields H f ss =
     Inr (f\<lparr>row := (row f)\<lparr>measurements :=
              measurements (row f) @ map led (triples (measurementPieces f @ vs))\<rparr>,
       field := field f + length ss,
       measurementPieces := leftover (measurementPieces f @ vs)\<rparr>)"
proof (induction ss arbitrary: f vs)
  case Nil
  then have "vs = []" by simp
  with short_pieces [OF Nil.prems(2)] show ?case
    by auto
next
  case (Cons s ss)
  from Cons.prems(3) obtain v vs' where vs: "vs = v # vs'"
    and v: "getFieldAs_float H s = Some v"
    and rest: "map (getFieldAs_float H) ss = map Some vs'"
    by (cases vs) auto
  note call = LoadRow_call_float [OF Cons.prems(1) v]
  from short_pieces [OF Cons.prems(2)]
  consider "measurementPieces f = []" | a where "measurementPieces f = [a]"
    | a b where "measurementPieces f = [a, b]"
    by blast
  then show ?case
  proof cases
    case 1
    let ?f' = "f\<lparr>field := Suc (field f), measurementPieces := [v]\<rparr>"
    have "9 \<le> field ?f'" "length (measurementPieces ?f') < 3"
      using Cons.prems(1) by simp_all
    from Cons.IH [OF this rest] 1 show ?thesis
      by (simp add: call vs)
  next
    case 2
    let ?f' = "f\<lparr>field := Suc (field f), measurementPieces := [a, v]\<rparr>"
    have "9 \<le> field ?f'" "length (measurementPieces ?f') < 3"
      using Cons.prems(1) by simp_all
    from Cons.IH [OF this rest] 2 show ?thesis
      by (simp add: call vs)
  next
    case 3
    let ?f' = "f\<lparr>row := (row f)\<lparr>measurements := measurements (row f) @
                  [LedMeasurement a b v IMAGE_SIZE]\<rparr>,
                field := Suc (field f), measurementPieces := []\<rparr>"
    have "9 \<le> field ?f'" "length (measurementPieces ?f') < 3"
      using Cons.prems(1) by simp_all
    from Cons.IH [OF this rest] 3 show ?thesis
      by (simp add: call vs led_def)
  qed
qed

subsection \<open>The reference translation\<close>

text \<open>
  Claim C1. A well-formed line should give a row whose reference translation holds the
  fields 0 to 2 at its components 0 to 2. On the line \<open>1,2,3,1,0,0,0,5,6\<close> the code leaves
  component 0 unwritten, stores the first field at component 1 and the second at
  component 2; the store of the third field has the index 3, and there the run ends with
  the translation \<open>[None, Some 1, Some 2]\<close>.
\<close>

theorem xlate_shifted_by_one:
  "parseLine (splitFields (CHR '','')) decimalHelper ''1,2,3,1,0,0,0,5,6'' =
     Inl (OutOfRangeStore 3
       \<lparr>row = \<lparr>tv = \<lparr>seconds = None, microseconds = None\<rparr>,
               xlate = [None, Some 1, Some 2],
               rot = \<lparr>qw = None, qx = None, qy = None, qz = None\<rparr>,
               measurements = [], ok = False\<rparr>,
        field = 3, measurementPieces = []\<rparr>)"
  by (simp add: parseLine_def LoadRow_call_def LoadRow_new_def TimestampedMeasurements_new_def
        Vector3d_store_def decimalHelper_def decimal_def digitValue_def)

text \<open>
  Claim C2. Every store into the reference translation should use an index below 3. On the
  same line the store for the third field uses the index 3, for which the store into a
  vector of three coefficients has no result.
\<close>

theorem xlate_store_out_of_range:
  "stoppedAt (parseLine (splitFields (CHR '','')) decimalHelper ''1,2,3,1,0,0,0,5,6'') = Some 3
   \<and> Vector3d_store 3 (3::nat) [None, Some 1, Some 2] = None"
  by (simp add: stoppedAt_def parseLine_def LoadRow_call_def LoadRow_new_def
        TimestampedMeasurements_new_def Vector3d_store_def decimalHelper_def decimal_def
        digitValue_def)

subsection \<open>Rows with a parse failure\<close>

text \<open>
  Claim C3. A numeric parse failure in a field of a line should leave that row out of the
  log while loading goes on with the lines after it, and a row should be accepted only if
  its nine required fields parsed. In the sample file the first data line fails in its
  first field: it is left out and loading goes on. The second data line fails in its
  fourth field; its first three fields parse, so the run ends at the out-of-range store of
  the third field before the failing field is read: no log is returned, and the third data
  line, whose nine fields all parse, is never read.
\<close>

theorem parse_failure_ends_load:
  "getFieldAs_double decimalHelper ''x'' = None
   \<and> sampleFiles ''log.csv''
       = Some [''refx,refy,refz'', ''x,2,3,1,0,0,0,5,6'', ''1,2,3,x,0,0,0,5,6'', ''1,2,3,1,0,0,0,5,6'']
   \<and> parseLine (splitFields (CHR '','')) decimalHelper ''x,2,3,1,0,0,0,5,6''
       = Inr \<lparr>row = TimestampedMeasurements_new, field = 1, measurementPieces = []\<rparr>
   \<and> loadData sampleFiles (splitFields (CHR '','')) decimalHelper ''log.csv'' =
       Inl (OutOfRangeStore 3
         \<lparr>row = \<lparr>tv = \<lparr>seconds = None, microseconds = None\<rparr>,
                 xlate = [None, Some 1, Some 2],
                 rot = \<lparr>qw = None, qx = None, qy = None, qz = None\<rparr>,
                 measurements = [], ok = False\<rparr>,
          field = 3, measurementPieces = []\<rparr>)"
proof -
  have x: "getFieldAs_double decimalHelper ''x'' = None"
    by (simp add: decimalHelper_def decimal_def digitValue_def)
  have f: "sampleFiles ''log.csv''
       = Some [''refx,refy,refz'', ''x,2,3,1,0,0,0,5,6'', ''1,2,3,x,0,0,0,5,6'', ''1,2,3,1,0,0,0,5,6'']"
    by (simp add: sampleFiles_def)
  have l1: "parseLine (splitFields (CHR '','')) decimalHelper ''x,2,3,1,0,0,0,5,6''
       = Inr \<lparr>row = TimestampedMeasurements_new, field = 1, measurementPieces = []\<rparr>"
    by (simp add: parseLine_def LoadRow_call_def LoadRow_new_def TimestampedMeasurements_new_def
          Vector3d_store_def decimalHelper_def decimal_def digitValue_def)
  have l2: "parseLine (splitFields (CHR '','')) decimalHelper ''1,2,3,x,0,0,0,5,6'' =
       Inl (OutOfRangeStore 3
         \<lparr>row = \<lparr>tv = \<lparr>seconds = None, microseconds = None\<rparr>,
                 xlate = [None, Some 1, Some 2],
                 rot = \<lparr>qw = None, qx = None, qy = None, qz = None\<rparr>,
                 measurements = [], ok = False\<rparr>,
          field = 3, measurementPieces = []\<rparr>)"
    by (simp add: parseLine_def LoadRow_call_def LoadRow_new_def TimestampedMeasurements_new_def
          Vector3d_store_def decimalHelper_def decimal_def digitValue_def)
  have "loadData sampleFiles (splitFields (CHR '','')) decimalHelper ''log.csv'' =
       Inl (OutOfRangeStore 3
         \<lparr>row = \<lparr>tv = \<lparr>seconds = None, microseconds = None\<rparr>,
                 xlate = [None, Some 1, Some 2],
                 rot = \<lparr>qw = None, qx = None, qy = None, qz = None\<rparr>,
                 measurements = [], ok = False\<rparr>,
          field = 3, measurementPieces = []\<rparr>)"
    by (simp add: loadData_def f getCleanLine_def loadLoop_step [OF _ l1] loadLoop_stop [OF _ l2])
  with x f l1 show ?thesis by simp
qed

subsection \<open>The beacon measurements\<close>


subsection \<open>Files that cannot be used\<close>

text \<open>
  Claim C10. When the file cannot be opened, and when its first line is empty or missing,
  \<^verbatim>\<open>loadData\<close> returns an empty log and prints one message (that the file could not be
  opened, or that the header row was empty); it returns normally, and none of the lines
  after an empty header gives a row.
\<close>

theorem loadData_unusable_file:
  assumes "files fn = None \<or> files fn = Some [] \<or> (\<exists>lines. files fn = Some ([] # lines))"
  shows "loadData files F H fn =
           Inr ([], [if files fn = None then CouldNotOpen fn else HeaderRowEmpty])"
  using assms by (auto simp: loadData_def getCleanLine_def)

theorem loadData_unusable_file_witness:
  "sampleFiles ''missing.csv'' = None
   \<and> sampleFiles ''empty.csv'' = Some []
   \<and> sampleFiles ''noheader.csv'' = Some ([] # [''1,2,3,1,0,0,0,5,6''])
   \<and> loadData sampleFiles (splitFields (CHR '','')) decimalHelper ''missing.csv''
       = Inr ([], [CouldNotOpen ''missing.csv''])
   \<and> loadData sampleFiles (splitFields (CHR '','')) decimalHelper ''empty.csv''
       = Inr ([], [HeaderRowEmpty])
   \<and> loadData sampleFiles (splitFields (CHR '','')) decimalHelper ''noheader.csv''
       = Inr ([], [HeaderRowEmpty])"
proof -
  have a: "sampleFiles ''missing.csv'' = None" by (simp add: sampleFiles_def)
  have b: "sampleFiles ''empty.csv'' = Some []" by (simp add: sampleFiles_def)
  have c: "sampleFiles ''noheader.csv'' = Some ([] # [''1,2,3,1,0,0,0,5,6''])"
    by (simp add: sampleFiles_def)
  from loadData_unusable_file [of sampleFiles "''missing.csv''" "splitFields (CHR '','')" decimalHelper]
    loadData_unusable_file [of sampleFiles "''empty.csv''" "splitFields (CHR '','')" decimalHelper]
    loadData_unusable_file [of sampleFiles "''noheader.csv''" "splitFields (CHR '','')" decimalHelper]
    a b c
  show ?thesis by simp
qed

end
